theory Spec2Isabelle
  imports Complex_Main
begin

section \<open>silentjack: peak capture and the silence / no-dynamic detector\<close>

text \<open>
  The program is one C file. The JACK process callback \<open>process_peak\<close> keeps the largest
  absolute sample in the global \<open>peak\<close>; once a second the loop of \<open>main\<close> counts down
  a grace period, skips the round when the input port has no connection, and otherwise
  reads the peak in decibels (\<open>read_peak\<close>), runs the silence test and the no-dynamic
  test, and calls \<open>run_command\<close> for each test whose counter has reached its period.

  Modelling decisions.
  \<^item> C \<open>float\<close> values are real numbers, and comparisons and \<open>fabs\<close> are exact on them.
    The two operations that round are parameters of the model and are left arbitrary:
    the conversion \<open>lin2db\<close> and the subtraction of two readings (\<open>fsub\<close>). NaN and
    infinities are not represented.
  \<^item> C \<open>int\<close> variables are integers. Lemma \<open>main_loop_counts\<close> shows that, started
    from the program's initial values, both detector counters stay between zero and
    their periods, so no \<open>++\<close> of the loop can overflow. The grace counter can hold the
    least \<open>int\<close>, so its \<open>--\<close> is modelled with the wrap-around (\<open>decrement\<close>).
  \<^item> \<open>read_peak\<close> is one step of the loop, and callbacks run between two rounds. The
    last section splits \<open>read_peak\<close> into its two statements and lets a callback run
    between them.
  \<^item> What the loop obtains from outside in one round is a \<open>tick_input\<close>: the sample
    buffers the callback received since the previous round, the answer of
    \<open>jack_port_connected\<close>, and whether \<open>fork\<close> succeeds in a \<open>run_command\<close> call of
    this round.
  \<^item> \<open>exit\<close> inside \<open>run_command\<close> ends the process; the round then has outcome
    \<open>Exited\<close> and the loop stops.
  \<^item> A fire event stands for the call \<open>run_command(argc, argv)\<close> of a detector (preceded
    in the source by the message \<open>**SILENCE**\<close> or \<open>**NO DYNAMIC**\<close>).
\<close>

subsection \<open>Data\<close>

type_synonym sample = real

datatype fire = SILENCE | NO_DYNAMIC

text \<open>The option values of \<open>main\<close> and the remaining arguments (the command).\<close>

record config =
  silence_theshold :: real
  silence_period :: int
  nodynamic_theshold :: real
  nodynamic_period :: int
  grace_period :: int
  command :: "string list"

text \<open>The global \<open>peak\<close> and the loop variables of \<open>main\<close>.\<close>

record machine =
  peak :: real
  peakdb :: real
  last_peakdb :: real
  silence_count :: int
  nodynamic_count :: int
  in_grace :: int

record tick_input =
  blocks :: "sample list list"
  port_connected :: bool
  fork_ok :: "fire \<Rightarrow> bool"

datatype outcome = Running machine | Exited int

text \<open>The values the declarations of \<open>main\<close> and of the global give before the loop.\<close>

definition initial :: machine where
  "initial = \<lparr>peak = 0, peakdb = 0, last_peakdb = 0,
              silence_count = 0, nodynamic_count = 0, in_grace = 0\<rparr>"

subsection \<open>Decibels\<close>

text \<open>
  Modelled from the spec: \<open>lin2db\<close> is defined in \<open>db.h\<close>, which is not among the
  sources. The specification gives \<open>20 * log10(linearPeak)\<close> for a positive peak and a
  fixed, very low value for a peak of exactly zero; that value is the first argument here.
  The cell is never negative, and the specification says nothing of negative arguments.
  The functions of the loop below take the conversion as a parameter, so what is proved
  of them holds for every \<open>lin2db\<close>.
\<close>

definition lin2db :: "real \<Rightarrow> real \<Rightarrow> real" where
  "lin2db floor_db lin = (if lin = 0 then floor_db else 20 * log 10 lin)"

subsection \<open>The peak cell\<close>

text \<open>
  \<open>read_peak\<close>: the decibel value of the cell, and the cell set to zero. The result is
  the pair of the returned value and the new content of \<open>peak\<close>.
\<close>

definition read_peak :: "(real \<Rightarrow> real) \<Rightarrow> real \<Rightarrow> real \<times> real" where
  "read_peak l2d pk = (let peakdb = l2d pk in (peakdb, 0))"

text \<open>The \<open>for\<close> loop of \<open>process_peak\<close> over the frames of one buffer.\<close>

fun peak_scan :: "sample list \<Rightarrow> real \<Rightarrow> real" where
  "peak_scan [] pk = pk"
| "peak_scan (x # xs) pk = (let s = \<bar>x\<bar> in peak_scan xs (if s > pk then s else pk))"

text \<open>
  \<open>process_peak\<close>: nothing happens while \<open>input_port\<close> is still \<open>NULL\<close>; the flag says
  whether the port is registered.
\<close>

definition process_peak :: "bool \<Rightarrow> sample list \<Rightarrow> real \<Rightarrow> real" where
  "process_peak port_registered buf pk = (if \<not> port_registered then pk else peak_scan buf pk)"

text \<open>
  The callbacks of one round, in order. \<open>init_jack\<close> registers the port before it
  installs the callback (and exits if that fails), so the port is registered here.
\<close>

fun callbacks :: "sample list list \<Rightarrow> real \<Rightarrow> real" where
  "callbacks [] pk = pk"
| "callbacks (buf # bufs) pk = callbacks bufs (process_peak True buf pk)"

subsection \<open>The trigger\<close>

text \<open>
  \<open>run_command\<close>: \<open>None\<close> when the call returns to the loop, \<open>Some c\<close> when the process
  ends with \<open>exit(c)\<close>: for the command \<open>exit\<close>, and when \<open>fork\<close> fails. A failing \<open>execvp\<close>
  ends the child only, and a failing \<open>waitpid\<close> is reported and ignored.
\<close>

definition run_command :: "string list \<Rightarrow> bool \<Rightarrow> int option" where
  "run_command argv fork_succeeds =
     (if length argv < 1 then None
      else if length argv = 1 \<and> argv ! 0 = ''exit'' then Some 0
      else if \<not> fork_succeeds then Some (- 1)
      else None)"

subsection \<open>One round of the main loop\<close>

text \<open>The block \<open>if (silence_theshold) { ... }\<close>.\<close>

definition silence_detection :: "config \<Rightarrow> bool \<Rightarrow> machine \<Rightarrow> fire list \<times> outcome" where
  "silence_detection cfg fork_succeeds m =
     (if silence_theshold cfg \<noteq> 0 then
        (let m1 = (if peakdb m < silence_theshold cfg
                   then m\<lparr>silence_count := silence_count m + 1\<rparr>
                   else m\<lparr>silence_count := 0\<rparr>)
         in if silence_count m1 \<ge> silence_period cfg then
              (case run_command (command cfg) fork_succeeds of
                 Some c \<Rightarrow> ([SILENCE], Exited c)
               | None \<Rightarrow>
                   ([SILENCE], Running (m1\<lparr>silence_count := 0, in_grace := grace_period cfg\<rparr>)))
            else ([], Running m1))
      else ([], Running m))"

text \<open>
  The block \<open>if (nodynamic_theshold) { ... }\<close>. The difference \<open>last_peakdb-peakdb\<close> is
  a subtraction of two \<open>float\<close> values, whose result is rounded; \<open>fsub\<close> is that
  subtraction. \<open>fabs\<close> and the comparison are exact.
\<close>

definition nodynamic_detection ::
  "(real \<Rightarrow> real \<Rightarrow> real) \<Rightarrow> config \<Rightarrow> bool \<Rightarrow> machine \<Rightarrow> fire list \<times> outcome" where
  "nodynamic_detection fsub cfg fork_succeeds m =
     (if nodynamic_theshold cfg \<noteq> 0 then
        (let m1 = (if \<bar>fsub (last_peakdb m) (peakdb m)\<bar> < nodynamic_theshold cfg
                   then m\<lparr>nodynamic_count := nodynamic_count m + 1\<rparr>
                   else m\<lparr>nodynamic_count := 0\<rparr>)
         in if nodynamic_count m1 \<ge> nodynamic_period cfg then
              (case run_command (command cfg) fork_succeeds of
                 Some c \<Rightarrow> ([NO_DYNAMIC], Exited c)
               | None \<Rightarrow>
                   ([NO_DYNAMIC],
                    Running (m1\<lparr>nodynamic_count := 0, in_grace := grace_period cfg\<rparr>)))
            else ([], Running m1))
      else ([], Running m))"

text \<open>The two detector blocks one after the other, as they stand in the loop body.\<close>

definition detect ::
  "(real \<Rightarrow> real \<Rightarrow> real) \<Rightarrow> config \<Rightarrow> tick_input \<Rightarrow> machine \<Rightarrow> fire list \<times> outcome" where
  "detect fsub cfg inp m =
     (case silence_detection cfg (fork_ok inp SILENCE) m of
        (ev1, Exited c) \<Rightarrow> (ev1, Exited c)
      | (ev1, Running m2) \<Rightarrow>
          (case nodynamic_detection fsub cfg (fork_ok inp NO_DYNAMIC) m2 of
             (ev2, out) \<Rightarrow> (ev1 @ ev2, out)))"

text \<open>
  The part of the loop body that is reached when no grace period runs and the port is
  connected: \<open>last_peakdb = peakdb; peakdb = read_peak();\<close> and then the detectors.
\<close>

definition evaluate ::
  "(real \<Rightarrow> real) \<Rightarrow> (real \<Rightarrow> real \<Rightarrow> real) \<Rightarrow> config \<Rightarrow> tick_input \<Rightarrow> machine
     \<Rightarrow> fire list \<times> outcome" where
  "evaluate l2d fsub cfg inp m =
     (let (db, pk) = read_peak l2d (peak m);
          m1 = m\<lparr>last_peakdb := peakdb m, peakdb := db, peak := pk\<rparr>
      in detect fsub cfg inp m1)"

text \<open>
  \<open>in_grace--\<close> on a C \<open>int\<close>. The grace counter can hold the least \<open>int\<close> (the option
  \<open>-g -2147483648\<close> stores it as grace period); decrementing it there gives the
  greatest \<open>int\<close> on the compiled program.
\<close>

definition decrement :: "int \<Rightarrow> int" where
  "decrement i = (if i = - 2147483648 then 2147483647 else i - 1)"

text \<open>The loop body after \<open>usleep\<close>: the grace test, then the connection test.\<close>

definition loop_body ::
  "(real \<Rightarrow> real) \<Rightarrow> (real \<Rightarrow> real \<Rightarrow> real) \<Rightarrow> config \<Rightarrow> tick_input \<Rightarrow> machine
     \<Rightarrow> fire list \<times> outcome" where
  "loop_body l2d fsub cfg inp m =
     (if in_grace m \<noteq> 0 then ([], Running (m\<lparr>in_grace := decrement (in_grace m)\<rparr>))
      else if \<not> port_connected inp then ([], Running m)
      else evaluate l2d fsub cfg inp m)"

text \<open>
  One round: the callbacks that ran since the previous round update the cell, then the
  loop body runs.
\<close>

definition tick ::
  "(real \<Rightarrow> real) \<Rightarrow> (real \<Rightarrow> real \<Rightarrow> real) \<Rightarrow> config \<Rightarrow> tick_input \<Rightarrow> machine
     \<Rightarrow> fire list \<times> outcome" where
  "tick l2d fsub cfg inp m =
     loop_body l2d fsub cfg inp (m\<lparr>peak := callbacks (blocks inp) (peak m)\<rparr>)"

text \<open>
  The loop over the rounds for which \<open>running\<close> is still set: the fires and the outcome
  of every round, up to and including a round that ends the process.
\<close>

fun main_loop ::
  "(real \<Rightarrow> real) \<Rightarrow> (real \<Rightarrow> real \<Rightarrow> real) \<Rightarrow> config \<Rightarrow> tick_input list \<Rightarrow> machine
     \<Rightarrow> (fire list \<times> outcome) list" where
  "main_loop l2d fsub cfg [] m = []"
| "main_loop l2d fsub cfg (inp # inps) m =
     (case tick l2d fsub cfg inp m of
        (ev, Running m') \<Rightarrow> (ev, Running m') # main_loop l2d fsub cfg inps m'
      | (ev, Exited c) \<Rightarrow> [(ev, Exited c)])"

subsection \<open>Example data\<close>

text \<open>
  Concrete inputs for the examples below: a connected round in which the callback
  received one buffer of one frame whose level is \<open>d\<close> decibels (the sample is
  \<open>10 powr (d / 20)\<close>, so \<open>lin2db\<close> gives \<open>d\<close> back), and a round in which the port has no
  connection and no buffer arrived. With these inputs the cell is never read at zero,
  so no example depends on the value \<open>lin2db\<close> has there; the examples use -1000.
\<close>

definition heard :: "real \<Rightarrow> tick_input" where
  "heard d = \<lparr>blocks = [[10 powr (d / 20)]], port_connected = True, fork_ok = (\<lambda>f. True)\<rparr>"

text \<open>
  The subtraction of the examples. Their readings (0, -10, -45, -50, -60) and the
  differences of any two of them are whole numbers, which a \<open>float\<close> holds exactly, so
  the rounded difference is the difference.
\<close>

definition exact_sub :: "real \<Rightarrow> real \<Rightarrow> real" where
  "exact_sub a b = a - b"

definition unplugged :: tick_input where
  "unplugged = \<lparr>blocks = [], port_connected = False, fork_ok = (\<lambda>f. True)\<rparr>"

text \<open>
  The options \<open>-l\<close>, \<open>-p\<close>, \<open>-d\<close>, \<open>-P\<close>, \<open>-g\<close> and the command, in this order.
\<close>

definition options :: "real \<Rightarrow> int \<Rightarrow> real \<Rightarrow> int \<Rightarrow> int \<Rightarrow> string list \<Rightarrow> config" where
  "options l p d P g cmd =
     \<lparr>silence_theshold = l, silence_period = p, nodynamic_theshold = d,
      nodynamic_period = P, grace_period = g, command = cmd\<rparr>"

subsection \<open>The range of the detector counters\<close>

text \<open>
  Each detector counter lies between zero and its period less one (at zero when the
  period is not positive).
\<close>

definition counts_in_range :: "config \<Rightarrow> machine \<Rightarrow> bool" where
  "counts_in_range cfg m =
     (0 \<le> silence_count m \<and> silence_count m \<le> max 0 (silence_period cfg - 1)
      \<and> 0 \<le> nodynamic_count m \<and> nodynamic_count m \<le> max 0 (nodynamic_period cfg - 1))"

subsection \<open>The two statements of \<open>read_peak\<close> and the callback\<close>

text \<open>
  \<open>process_peak\<close> runs on the JACK thread while \<open>read_peak\<close> runs on the main thread.
  A schedule lists, in the order in which they take effect, whole callbacks (each with
  its buffer) and the two statements of \<open>read_peak\<close>: \<open>Read\<close> is line 53, which
  evaluates \<open>lin2db(peak)\<close> into the local variable, and \<open>Reset\<close> is line 54 followed by
  the \<open>return\<close>. The state holds the cell, the local variable while a call of
  \<open>read_peak\<close> is under way, and the values returned so far. A \<open>Reset\<close> with no call
  under way does nothing.
\<close>

datatype action = Callback "sample list" | Read | Reset

record threads =
  cell :: real
  local_peakdb :: "real option"
  returned :: "real list"

fun act :: "(real \<Rightarrow> real) \<Rightarrow> action \<Rightarrow> threads \<Rightarrow> threads" where
  "act l2d (Callback buf) t = t\<lparr>cell := process_peak True buf (cell t)\<rparr>"
| "act l2d Read t = t\<lparr>local_peakdb := Some (l2d (cell t))\<rparr>"
| "act l2d Reset t =
     (case local_peakdb t of
        None \<Rightarrow> t
      | Some db \<Rightarrow> t\<lparr>cell := 0, local_peakdb := None, returned := returned t @ [db]\<rparr>)"

fun schedule :: "(real \<Rightarrow> real) \<Rightarrow> action list \<Rightarrow> threads \<Rightarrow> threads" where
  "schedule l2d [] t = t"
| "schedule l2d (a # as) t = schedule l2d as (act l2d a t)"

definition idle :: "real \<Rightarrow> threads" where
  "idle pk = \<lparr>cell = pk, local_peakdb = None, returned = []\<rparr>"

section \<open>Basic facts\<close>

lemma lin2db_powr: "lin2db f (10 powr x) = 20 * x"
  by (simp add: lin2db_def)

lemma read_peak_eq: "read_peak l2d pk = (l2d pk, 0)"
  by (simp add: read_peak_def)

lemma peak_scan_fold: "peak_scan xs pk = fold max (map abs xs) pk"
  by (induction xs arbitrary: pk) (simp_all add: Let_def max_def not_less)

lemma peak_scan_Max: "peak_scan xs pk = Max (insert pk (abs ` set xs))"
proof -
  have "Max (set (pk # map abs xs)) = fold max (map abs xs) pk"
    by (rule Max.set_eq_fold)
  then show ?thesis
    by (simp add: peak_scan_fold)
qed

lemma peak_scan_append: "peak_scan (xs @ ys) pk = peak_scan ys (peak_scan xs pk)"
  by (induction xs arbitrary: pk) (simp_all add: Let_def)

lemma callbacks_concat: "callbacks bufs pk = peak_scan (concat bufs) pk"
  by (induction bufs arbitrary: pk) (simp_all add: process_peak_def peak_scan_append)

lemma callbacks_Max: "callbacks bufs pk = Max (insert pk (abs ` set (concat bufs)))"
  by (simp only: callbacks_concat peak_scan_Max)

lemma callbacks_append: "callbacks (bs @ cs) pk = callbacks cs (callbacks bs pk)"
  by (simp add: callbacks_concat peak_scan_append)

lemma decrement_pos: "0 < i \<Longrightarrow> decrement i = i - 1"
  by (simp add: decrement_def)

text \<open>The three ways through one round.\<close>

lemma tick_grace:
  "in_grace m \<noteq> 0 \<Longrightarrow>
   tick l2d fsub cfg inp m =
     ([], Running (m\<lparr>peak := callbacks (blocks inp) (peak m),
                      in_grace := decrement (in_grace m)\<rparr>))"
  by (simp add: tick_def loop_body_def)

lemma tick_disconnected:
  "in_grace m = 0 \<Longrightarrow> \<not> port_connected inp \<Longrightarrow>
   tick l2d fsub cfg inp m = ([], Running (m\<lparr>peak := callbacks (blocks inp) (peak m)\<rparr>))"
  by (simp add: tick_def loop_body_def)

lemma tick_evaluated:
  "in_grace m = 0 \<Longrightarrow> port_connected inp \<Longrightarrow>
   tick l2d fsub cfg inp m =
     detect fsub cfg inp (m\<lparr>last_peakdb := peakdb m,
                        peakdb := l2d (callbacks (blocks inp) (peak m)), peak := 0\<rparr>)"
  by (simp add: tick_def loop_body_def evaluate_def read_peak_def)

lemmas detector_defs = detect_def silence_detection_def nodynamic_detection_def Let_def

lemmas round_defs =
  tick_def loop_body_def evaluate_def read_peak_def process_peak_def run_command_def
  decrement_def
  detector_defs

lemmas example_defs = heard_def unplugged_def options_def initial_def exact_sub_def

lemma detect_fire_grace:
  "detect fsub cfg inp m = (evs, Running m') \<Longrightarrow> evs \<noteq> [] \<Longrightarrow> in_grace m' = grace_period cfg"
  by (auto simp: detector_defs split: if_splits option.splits prod.splits outcome.splits)

lemma detect_readings:
  "detect fsub cfg inp m = (evs, Running m') \<Longrightarrow>
   peak m' = peak m \<and> peakdb m' = peakdb m \<and> last_peakdb m' = last_peakdb m"
  by (auto simp: detector_defs split: if_splits option.splits prod.splits outcome.splits)

lemma tick_fire_grace:
  assumes "tick l2d fsub cfg inp m = (evs, Running m')" and "evs \<noteq> []"
  shows "in_grace m' = grace_period cfg"
proof (cases "in_grace m = 0 \<and> port_connected inp")
  case True
  with assms show ?thesis
    by (auto simp: tick_evaluated dest: detect_fire_grace)
next
  case False
  with assms show ?thesis
    by (cases "in_grace m = 0") (auto simp: tick_grace tick_disconnected)
qed

section \<open>The peak accumulator\<close>

text \<open>
  Claim C8, as amended. One call of \<open>process_peak\<close> with a registered port leaves in
  the cell the maximum of its old content and the absolute values of the samples of
  the buffer. Hence after any sequence of buffers that follows a reset, the cell holds
  the largest absolute sample seen since that reset (zero if there was none). A call of
  \<open>read_peak\<close> then returns the decibel conversion \<open>lin2db\<close> of that maximum, not the
  maximum itself, and resets the cell to zero once.
\<close>

theorem peak_accumulator:
  "process_peak True buf pk = Max (insert pk (abs ` set buf))
   \<and> callbacks bufs 0 = Max (insert 0 (abs ` set (concat bufs)))
   \<and> read_peak l2d (callbacks bufs 0) = (l2d (Max (insert 0 (abs ` set (concat bufs)))), 0)"
  by (simp only: process_peak_def peak_scan_Max callbacks_Max read_peak_eq simp_thms if_False)

text \<open>
  The claim as it was stated has \<open>read_peak\<close> return the maximum. For the buffer with the
  samples 0.5 and -1 the largest absolute sample is 1, and \<open>read_peak\<close> returns 0, the
  decibel value of 1.
\<close>

theorem read_peak_decibel_counterexample:
  "Max (abs ` set (concat [[1 / 2, - 1 :: real]])) = 1
   \<and> read_peak (lin2db (- 1000)) (callbacks [[1 / 2, - 1]] 0) = (0, 0)"
  by (simp add: process_peak_def read_peak_def lin2db_def)

section \<open>The detector counters stay in range\<close>

text \<open>
  A round keeps both detector counters in their ranges, and so does the loop started
  from the initial values: a counter that is incremented is below its period before,
  so no \<open>++\<close> of the loop leaves the range of a C \<open>int\<close>.
\<close>

lemma silence_detection_in_range:
  assumes "counts_in_range cfg m"
    and "silence_detection cfg fk m = (ev, Running m')"
  shows "counts_in_range cfg m'"
proof (cases "silence_theshold cfg = 0")
  case True
  with assms show ?thesis by (simp add: silence_detection_def)
next
  case False
  with assms show ?thesis
    by (auto simp: silence_detection_def counts_in_range_def Let_def
             split: if_splits option.splits)
qed

lemma nodynamic_detection_in_range:
  assumes "counts_in_range cfg m"
    and "nodynamic_detection fsub cfg fk m = (ev, Running m')"
  shows "counts_in_range cfg m'"
proof (cases "nodynamic_theshold cfg = 0")
  case True
  with assms show ?thesis by (simp add: nodynamic_detection_def)
next
  case False
  with assms show ?thesis
    by (auto simp: nodynamic_detection_def counts_in_range_def Let_def
             split: if_splits option.splits)
qed

lemma detect_in_range:
  assumes "counts_in_range cfg m"
    and "detect fsub cfg inp m = (ev, Running m')"
  shows "counts_in_range cfg m'"
proof -
  obtain e1 r1 where s: "silence_detection cfg (fork_ok inp SILENCE) m = (e1, r1)"
    by (cases "silence_detection cfg (fork_ok inp SILENCE) m")
  show ?thesis
  proof (cases r1)
    case (Exited c)
    with assms(2) s show ?thesis by (simp add: detect_def)
  next
    case (Running m2)
    with s have m2: "counts_in_range cfg m2"
      using silence_detection_in_range [OF assms(1)] by simp
    obtain e2 where "nodynamic_detection fsub cfg (fork_ok inp NO_DYNAMIC) m2 = (e2, Running m')"
      using assms(2) s Running by (auto simp: detect_def split: prod.splits)
    then show ?thesis
      by (rule nodynamic_detection_in_range [OF m2])
  qed
qed

lemma tick_counts_in_range:
  assumes "counts_in_range cfg m"
    and "tick l2d fsub cfg inp m = (ev, Running m')"
  shows "counts_in_range cfg m'"
proof (cases "in_grace m = 0")
  case False
  with assms show ?thesis
    by (auto simp: tick_grace counts_in_range_def)
next
  case True
  show ?thesis
  proof (cases "port_connected inp")
    case False
    with True assms show ?thesis
      by (auto simp: tick_disconnected counts_in_range_def)
  next
    case conn: True
    have "counts_in_range cfg (m\<lparr>last_peakdb := peakdb m,
        peakdb := l2d (callbacks (blocks inp) (peak m)), peak := 0\<rparr>)"
      using assms(1) by (simp add: counts_in_range_def)
    then show ?thesis
      using assms(2) True conn detect_in_range
      by (simp add: tick_evaluated)
  qed
qed

lemma main_loop_counts_from:
  assumes "counts_in_range cfg m"
    and "(ev, Running m') \<in> set (main_loop l2d fsub cfg inps m)"
  shows "counts_in_range cfg m'"
  using assms
proof (induction inps arbitrary: m)
  case Nil
  then show ?case by simp
next
  case (Cons inp inps)
  obtain e r where t: "tick l2d fsub cfg inp m = (e, r)"
    by (cases "tick l2d fsub cfg inp m")
  show ?case
  proof (cases r)
    case (Exited c)
    with Cons.prems t show ?thesis by simp
  next
    case (Running m1)
    with t have m1: "counts_in_range cfg m1"
      using tick_counts_in_range [OF Cons.prems(1)] by simp
    from Cons.prems(2) t Running
    have "m' = m1 \<or> (ev, Running m') \<in> set (main_loop l2d fsub cfg inps m1)"
      by auto
    with m1 Cons.IH [OF m1] show ?thesis by auto
  qed
qed

lemma main_loop_counts:
  "(ev, Running m') \<in> set (main_loop l2d fsub cfg inps initial) \<Longrightarrow> counts_in_range cfg m'"
  by (rule main_loop_counts_from [of cfg initial]) (simp_all add: counts_in_range_def initial_def)

section \<open>The grace period\<close>

text \<open>
  Claim C2. In a round that starts with the grace counter above zero, the counter goes
  down by exactly one, no fire is emitted, and both detector counters keep their values
  (the round changes nothing but the grace counter; the peak cell is only touched by
  the callbacks). After a round that fired under a grace period of 2, the next two
  rounds emit nothing and leave both counters alone whatever their inputs are, and the
  third round is an ordinary round again: with the port connected it shifts the
  readings, reads the peak and runs the detectors.
\<close>

theorem grace_tick_suppression:
  "(0 < in_grace m \<longrightarrow>
      tick l2d fsub cfg inp m =
        ([], Running (m\<lparr>peak := callbacks (blocks inp) (peak m), in_grace := in_grace m - 1\<rparr>)))
   \<and> (grace_period cfg = 2 \<and> tick l2d fsub cfg inp m = (evs, Running m0) \<and> evs \<noteq> [] \<longrightarrow>
        (let m1 = m0\<lparr>peak := callbacks (blocks i1) (peak m0), in_grace := 1\<rparr>;
             m2 = m1\<lparr>peak := callbacks (blocks i2) (peak m1), in_grace := 0\<rparr>
         in main_loop l2d fsub cfg [i1, i2, i3] m0 =
              [([], Running m1), ([], Running m2), tick l2d fsub cfg i3 m2]
            \<and> silence_count m1 = silence_count m0 \<and> nodynamic_count m1 = nodynamic_count m0
            \<and> silence_count m2 = silence_count m0 \<and> nodynamic_count m2 = nodynamic_count m0
            \<and> (port_connected i3 \<longrightarrow>
                 tick l2d fsub cfg i3 m2 =
                   detect fsub cfg i3 (m2\<lparr>last_peakdb := peakdb m2,
                                       peakdb := l2d (callbacks (blocks i3) (peak m2)),
                                       peak := 0\<rparr>))))"
proof (intro conjI impI)
  assume "0 < in_grace m"
  then show "tick l2d fsub cfg inp m =
        ([], Running (m\<lparr>peak := callbacks (blocks inp) (peak m), in_grace := in_grace m - 1\<rparr>))"
    by (simp add: tick_grace decrement_pos)
next
  assume a: "grace_period cfg = 2 \<and> tick l2d fsub cfg inp m = (evs, Running m0) \<and> evs \<noteq> []"
  then have g: "in_grace m0 = 2"
    using tick_fire_grace [of l2d fsub cfg inp m evs m0] by simp
  show "let m1 = m0\<lparr>peak := callbacks (blocks i1) (peak m0), in_grace := 1\<rparr>;
             m2 = m1\<lparr>peak := callbacks (blocks i2) (peak m1), in_grace := 0\<rparr>
         in main_loop l2d fsub cfg [i1, i2, i3] m0 =
              [([], Running m1), ([], Running m2), tick l2d fsub cfg i3 m2]
            \<and> silence_count m1 = silence_count m0 \<and> nodynamic_count m1 = nodynamic_count m0
            \<and> silence_count m2 = silence_count m0 \<and> nodynamic_count m2 = nodynamic_count m0
            \<and> (port_connected i3 \<longrightarrow>
                 tick l2d fsub cfg i3 m2 =
                   detect fsub cfg i3 (m2\<lparr>last_peakdb := peakdb m2,
                                       peakdb := l2d (callbacks (blocks i3) (peak m2)),
                                       peak := 0\<rparr>))"
    using g
    by (auto simp: Let_def tick_grace decrement_def tick_evaluated
             split: outcome.splits prod.splits)
qed

text \<open>
  An instance: silence threshold -40 dB, period 1, grace 2, no command. A round at
  -50 dB fires; a loud round and a round without connection follow and are swallowed
  by the grace period; the round after them is evaluated again.
\<close>

theorem grace_tick_suppression_witness:
  "0 < in_grace (initial\<lparr>in_grace := 2\<rparr>)
   \<and> tick (lin2db (- 1000)) exact_sub (options (- 40) 1 0 10 2 []) unplugged (initial\<lparr>in_grace := 2\<rparr>)
       = ([], Running (initial\<lparr>in_grace := 1\<rparr>))
   \<and> grace_period (options (- 40) 1 0 10 2 []) = 2
   \<and> tick (lin2db (- 1000)) exact_sub (options (- 40) 1 0 10 2 []) (heard (- 50)) initial
       = ([SILENCE], Running (initial\<lparr>peakdb := - 50, in_grace := 2\<rparr>))
   \<and> map fst (main_loop (lin2db (- 1000)) exact_sub (options (- 40) 1 0 10 2 [])
                 [heard (- 10), unplugged, heard (- 50)]
                 (initial\<lparr>peakdb := - 50, in_grace := 2\<rparr>))
       = [[], [], []]"
proof -
  have fired: "tick (lin2db (- 1000)) exact_sub (options (- 40) 1 0 10 2 []) (heard (- 50)) initial
       = ([SILENCE], Running (initial\<lparr>peakdb := - 50, in_grace := 2\<rparr>))"
    by (simp add: round_defs example_defs lin2db_powr)
  have third: "fst (tick (lin2db (- 1000)) exact_sub (options (- 40) 1 0 10 2 []) (heard (- 50))
                 (initial\<lparr>peakdb := - 50, in_grace := 0, peak := 10 powr (- 10 / 20)\<rparr>)) = []"
    by (simp add: round_defs example_defs lin2db_powr)
  show ?thesis
    using fired third
      grace_tick_suppression [where m = "initial\<lparr>in_grace := 2\<rparr>" and l2d = "lin2db (- 1000)" and fsub = exact_sub
        and cfg = "options (- 40) 1 0 10 2 []" and inp = unplugged]
      grace_tick_suppression [where m = initial and l2d = "lin2db (- 1000)" and fsub = exact_sub
        and cfg = "options (- 40) 1 0 10 2 []" and inp = "heard (- 50)"
        and evs = "[SILENCE]" and ?m0.0 = "initial\<lparr>peakdb := - 50, in_grace := 2\<rparr>"
        and ?i1.0 = "heard (- 10)" and ?i2.0 = unplugged and ?i3.0 = "heard (- 50)"]
    by (simp add: example_defs Let_def process_peak_def)
qed

section \<open>Rounds without a connection\<close>

text \<open>
  Claim C3, as amended. In a round in which the input port is not connected no fire is
  emitted and neither detector counter is advanced or reset. The grace counter is left
  alone when it is zero; when it is not zero it is still counted down by one (by the
  \<open>--\<close> of a C \<open>int\<close>, which takes the least \<open>int\<close> to the greatest), because the loop
  tests the grace period before it asks for the connection.
\<close>

theorem disconnected_tick_frame:
  "\<not> port_connected inp \<Longrightarrow>
     tick l2d fsub cfg inp m =
       ([], Running (m\<lparr>peak := callbacks (blocks inp) (peak m),
                        in_grace := (if in_grace m = 0 then 0 else decrement (in_grace m))\<rparr>))
     \<and> (- 2147483648 < in_grace m \<longrightarrow> decrement (in_grace m) = in_grace m - 1)"
  by (cases "in_grace m = 0") (simp_all add: tick_grace tick_disconnected decrement_def)

theorem disconnected_tick_frame_witness:
  "\<not> port_connected unplugged
   \<and> tick (lin2db (- 1000)) exact_sub (options (- 40) 1 0 10 2 []) unplugged
        (initial\<lparr>silence_count := 1, nodynamic_count := 4\<rparr>)
      = ([], Running (initial\<lparr>silence_count := 1, nodynamic_count := 4\<rparr>))"
  using disconnected_tick_frame [where inp = unplugged and l2d = "lin2db (- 1000)" and fsub = exact_sub
      and cfg = "options (- 40) 1 0 10 2 []"
      and m = "initial\<lparr>silence_count := 1, nodynamic_count := 4\<rparr>"]
  by (simp add: example_defs)

text \<open>
  The claim as it was stated fails: a round without connection that starts with two
  seconds of grace left ends with one.
\<close>

theorem disconnected_tick_grace_counterexample:
  "\<not> port_connected unplugged
   \<and> in_grace (initial\<lparr>in_grace := 2\<rparr>) = 2
   \<and> tick (lin2db (- 1000)) exact_sub (options (- 40) 1 0 10 2 []) unplugged (initial\<lparr>in_grace := 2\<rparr>)
      = ([], Running (initial\<lparr>in_grace := 1\<rparr>))"
  by (simp add: round_defs example_defs)

section \<open>The detectors on an evaluated round\<close>

text \<open>
  Claim C1, as amended. Take a round that is evaluated (no grace period runs, the port is
  connected) and that runs to its end, that is, no command started in it ends the
  process. Each enabled detector then made its step: the silence counter was
  incremented if the current reading is strictly below the silence threshold and reset
  to zero otherwise; if the counter then reached the silence period, SILENCE was fired,
  the counter is zero again and the grace counter holds the grace period; if not, no
  SILENCE was fired and the counter keeps the new value. The no-dynamic detector did the
  same with the condition that the distance between the previous and the current
  reading, as the \<open>float\<close> subtraction of the source computes it, is strictly below its
  threshold, with its own counter and period.
\<close>

theorem evaluated_tick_transition:
  assumes "in_grace m = 0" and "port_connected inp"
    and "tick l2d fsub cfg inp m = (evs, Running m')"
  shows "(silence_theshold cfg \<noteq> 0 \<longrightarrow>
            (let current = l2d (callbacks (blocks inp) (peak m));
                 c = (if current < silence_theshold cfg then silence_count m + 1 else 0)
             in if silence_period cfg \<le> c
                then SILENCE \<in> set evs \<and> silence_count m' = 0 \<and> in_grace m' = grace_period cfg
                else SILENCE \<notin> set evs \<and> silence_count m' = c))
       \<and> (nodynamic_theshold cfg \<noteq> 0 \<longrightarrow>
            (let current = l2d (callbacks (blocks inp) (peak m));
                 previous = peakdb m;
                 c = (if \<bar>fsub previous current\<bar> < nodynamic_theshold cfg
                      then nodynamic_count m + 1 else 0)
             in if nodynamic_period cfg \<le> c
                then NO_DYNAMIC \<in> set evs \<and> nodynamic_count m' = 0 \<and> in_grace m' = grace_period cfg
                else NO_DYNAMIC \<notin> set evs \<and> nodynamic_count m' = c))"
  using assms
  by (auto simp: tick_evaluated detector_defs
           split: if_splits option.splits prod.splits outcome.splits)

text \<open>
  An instance: threshold -40 dB with period 2, no-dynamic threshold 5 dB with period 1,
  grace 3, no command. The previous reading was -50 dB and one quiet round has been
  counted; a second round at -50 dB brings both detectors to their periods.
\<close>

theorem evaluated_tick_transition_witness:
  "in_grace (initial\<lparr>peakdb := - 50, silence_count := 1\<rparr>) = 0
   \<and> port_connected (heard (- 50))
   \<and> tick (lin2db (- 1000)) exact_sub (options (- 40) 2 5 1 3 []) (heard (- 50))
        (initial\<lparr>peakdb := - 50, silence_count := 1\<rparr>)
      = ([SILENCE, NO_DYNAMIC],
         Running (initial\<lparr>peakdb := - 50, last_peakdb := - 50, in_grace := 3\<rparr>))
   \<and> silence_theshold (options (- 40) 2 5 1 3 []) \<noteq> 0
   \<and> nodynamic_theshold (options (- 40) 2 5 1 3 []) \<noteq> 0
   \<and> lin2db (- 1000) (callbacks (blocks (heard (- 50))) 0) = - 50
   \<and> silence_count (initial\<lparr>peakdb := - 50, last_peakdb := - 50, in_grace := 3\<rparr>) = 0
   \<and> nodynamic_count (initial\<lparr>peakdb := - 50, last_peakdb := - 50, in_grace := 3\<rparr>) = 0
   \<and> in_grace (initial\<lparr>peakdb := - 50, last_peakdb := - 50, in_grace := 3\<rparr>)
       = grace_period (options (- 40) 2 5 1 3 [])"
proof -
  have t: "tick (lin2db (- 1000)) exact_sub (options (- 40) 2 5 1 3 []) (heard (- 50))
        (initial\<lparr>peakdb := - 50, silence_count := 1\<rparr>)
      = ([SILENCE, NO_DYNAMIC],
         Running (initial\<lparr>peakdb := - 50, last_peakdb := - 50, in_grace := 3\<rparr>))"
    by (simp add: round_defs example_defs lin2db_powr)
  show ?thesis
    using t evaluated_tick_transition [OF _ _ t]
    by (simp add: example_defs process_peak_def lin2db_powr)
qed

text \<open>
  The claim as it was stated has no such restriction, and fails for the command \<open>exit\<close>:
  the silence counter reaches its period, SILENCE is fired, and the process ends inside
  \<open>run_command\<close>; the counter is never reset and the grace counter never set.
\<close>

theorem evaluated_tick_exit_counterexample:
  "in_grace initial = 0 \<and> port_connected (heard (- 50))
   \<and> silence_theshold (options (- 40) 1 0 10 0 [''exit'']) \<noteq> 0
   \<and> lin2db (- 1000) (callbacks (blocks (heard (- 50))) (peak initial)) < - 40
   \<and> silence_period (options (- 40) 1 0 10 0 [''exit'']) \<le> silence_count initial + 1
   \<and> tick (lin2db (- 1000)) exact_sub (options (- 40) 1 0 10 0 [''exit'']) (heard (- 50)) initial
        = ([SILENCE], Exited 0)"
  by (simp add: round_defs example_defs lin2db_powr)

section \<open>The debounce scenario\<close>

text \<open>
  Claim C4, as amended. With a silence threshold of -40 dB, a silence period of 3, no
  grace period and the no-dynamic detector disabled, six connected rounds with the
  readings -50, -50, -45, -50, -50, -50, started with the counter at zero and an empty
  cell, fire SILENCE in the third round: -45 is below -40 as well, so it continues the
  streak instead of breaking it. When the command started there returns, the counter
  starts again from zero and SILENCE is fired a second time in the sixth round. Nothing
  is fired in the other four rounds.
\<close>

theorem debounce_scenario:
  assumes "silence_theshold cfg = - 40" and "silence_period cfg = 3"
    and "nodynamic_theshold cfg = 0" and "grace_period cfg = 0"
    and "peak m = 0" and "silence_count m = 0" and "in_grace m = 0"
    and "list_all port_connected [i1, i2, i3, i4, i5, i6]"
    and "map (\<lambda>i. l2d (callbacks (blocks i) 0)) [i1, i2, i3, i4, i5, i6]
           = [- 50, - 50, - 45, - 50, - 50, - 50]"
    and "run_command (command cfg) (fork_ok i3 SILENCE) = None"
  shows "map fst (main_loop l2d fsub cfg [i1, i2, i3, i4, i5, i6] m)
           = [[], [], [SILENCE], [], [], [SILENCE]]"
  using assms
  by (simp add: tick_evaluated detector_defs split: option.splits)

theorem debounce_scenario_witness:
  "silence_theshold (options (- 40) 3 0 10 0 []) = - 40
   \<and> silence_period (options (- 40) 3 0 10 0 []) = 3
   \<and> nodynamic_theshold (options (- 40) 3 0 10 0 []) = 0
   \<and> grace_period (options (- 40) 3 0 10 0 []) = 0
   \<and> peak initial = 0 \<and> silence_count initial = 0 \<and> in_grace initial = 0
   \<and> list_all port_connected (map heard [- 50, - 50, - 45, - 50, - 50, - 50])
   \<and> map (\<lambda>i. lin2db (- 1000) (callbacks (blocks i) 0))
        (map heard [- 50, - 50, - 45, - 50, - 50, - 50]) = [- 50, - 50, - 45, - 50, - 50, - 50]
   \<and> run_command (command (options (- 40) 3 0 10 0 [])) (fork_ok (heard (- 45)) SILENCE) = None
   \<and> map fst (main_loop (lin2db (- 1000)) exact_sub (options (- 40) 3 0 10 0 [])
                 (map heard [- 50, - 50, - 45, - 50, - 50, - 50]) initial)
        = [[], [], [SILENCE], [], [], [SILENCE]]"
  using debounce_scenario [where cfg = "options (- 40) 3 0 10 0 []" and m = initial
      and l2d = "lin2db (- 1000)" and fsub = exact_sub
      and ?i1.0 = "heard (- 50)" and ?i2.0 = "heard (- 50)" and ?i3.0 = "heard (- 45)"
      and ?i4.0 = "heard (- 50)" and ?i5.0 = "heard (- 50)" and ?i6.0 = "heard (- 50)"]
  by (simp add: example_defs process_peak_def run_command_def lin2db_powr)

text \<open>
  The claim as it was stated (one fire only, in the sixth round) fails: run without a
  command, the six rounds fire in the third round and in the sixth.
\<close>

theorem debounce_scenario_counterexample:
  "map fst (main_loop (lin2db (- 1000)) exact_sub (options (- 40) 3 0 10 0 [])
              [heard (- 50), heard (- 50), heard (- 45), heard (- 50), heard (- 50), heard (- 50)]
              initial)
     = [[], [], [SILENCE], [], [], [SILENCE]]"
  by (simp add: round_defs example_defs lin2db_powr)

section \<open>A threshold of zero\<close>

lemma main_loop_preserves:
  assumes step: "\<And>inp m ev out. tick l2d fsub cfg inp m = (ev, out) \<Longrightarrow>
                   E ev \<and> (\<forall>m'. out = Running m' \<longrightarrow> f m' = f m)"
    and mem: "(ev, out) \<in> set (main_loop l2d fsub cfg inps m)"
  shows "E ev \<and> (\<forall>m'. out = Running m' \<longrightarrow> f m' = f m)"
  using mem
proof (induction inps arbitrary: m)
  case Nil
  then show ?case by simp
next
  case (Cons inp inps)
  obtain e r where t: "tick l2d fsub cfg inp m = (e, r)"
    by (cases "tick l2d fsub cfg inp m")
  note here = step [OF t]
  show ?case
  proof (cases r)
    case (Exited c)
    with Cons.prems t here show ?thesis by auto
  next
    case (Running m1)
    with Cons.prems t
    have "(ev, out) = (e, Running m1) \<or> (ev, out) \<in> set (main_loop l2d fsub cfg inps m1)"
      by simp
    then show ?thesis
    proof
      assume "(ev, out) = (e, Running m1)"
      with here Running show ?thesis by auto
    next
      assume "(ev, out) \<in> set (main_loop l2d fsub cfg inps m1)"
      from Cons.IH [OF this] here Running show ?thesis by auto
    qed
  qed
qed

lemma tick_silence_off:
  "silence_theshold cfg = 0 \<Longrightarrow> tick l2d fsub cfg inp m = (ev, out) \<Longrightarrow>
     SILENCE \<notin> set ev \<and> (\<forall>m'. out = Running m' \<longrightarrow> silence_count m' = silence_count m)"
  by (auto simp: round_defs split: if_splits option.splits prod.splits outcome.splits)

lemma tick_nodynamic_off:
  "nodynamic_theshold cfg = 0 \<Longrightarrow> tick l2d fsub cfg inp m = (ev, out) \<Longrightarrow>
     NO_DYNAMIC \<notin> set ev \<and> (\<forall>m'. out = Running m' \<longrightarrow> nodynamic_count m' = nodynamic_count m)"
  by (auto simp: round_defs split: if_splits option.splits prod.splits outcome.splits)

text \<open>
  Claim C5. With a silence threshold of exactly zero, no round of the loop, for any
  sequence of inputs and from any state, fires SILENCE, and the silence counter has
  after every round the value it had at the start. In the same way a no-dynamic
  threshold of exactly zero switches the no-dynamic detector off.
\<close>

theorem zero_threshold_disables:
  "(silence_theshold cfg = 0 \<longrightarrow>
      (\<forall>(ev, out) \<in> set (main_loop l2d fsub cfg inps m).
          SILENCE \<notin> set ev \<and> (\<forall>m'. out = Running m' \<longrightarrow> silence_count m' = silence_count m)))
   \<and> (nodynamic_theshold cfg = 0 \<longrightarrow>
      (\<forall>(ev, out) \<in> set (main_loop l2d fsub cfg inps m).
          NO_DYNAMIC \<notin> set ev \<and> (\<forall>m'. out = Running m' \<longrightarrow> nodynamic_count m' = nodynamic_count m)))"
proof (rule conjI; rule impI)
  assume off: "silence_theshold cfg = 0"
  {
    fix ev out
    assume mem: "(ev, out) \<in> set (main_loop l2d fsub cfg inps m)"
    have "SILENCE \<notin> set ev \<and> (\<forall>m'. out = Running m' \<longrightarrow> silence_count m' = silence_count m)"
    proof (rule main_loop_preserves [where E = "\<lambda>ev. SILENCE \<notin> set ev" and f = silence_count, OF _ mem])
      fix inp m ev out
      assume "tick l2d fsub cfg inp m = (ev, out)"
      with off show "SILENCE \<notin> set ev
          \<and> (\<forall>m'. out = Running m' \<longrightarrow> silence_count m' = silence_count m)"
        by (rule tick_silence_off)
    qed
  }
  then show "\<forall>(ev, out) \<in> set (main_loop l2d fsub cfg inps m).
          SILENCE \<notin> set ev \<and> (\<forall>m'. out = Running m' \<longrightarrow> silence_count m' = silence_count m)"
    by blast
next
  assume off: "nodynamic_theshold cfg = 0"
  {
    fix ev out
    assume mem: "(ev, out) \<in> set (main_loop l2d fsub cfg inps m)"
    have "NO_DYNAMIC \<notin> set ev
        \<and> (\<forall>m'. out = Running m' \<longrightarrow> nodynamic_count m' = nodynamic_count m)"
    proof (rule main_loop_preserves [where E = "\<lambda>ev. NO_DYNAMIC \<notin> set ev" and f = nodynamic_count, OF _ mem])
      fix inp m ev out
      assume "tick l2d fsub cfg inp m = (ev, out)"
      with off show "NO_DYNAMIC \<notin> set ev
          \<and> (\<forall>m'. out = Running m' \<longrightarrow> nodynamic_count m' = nodynamic_count m)"
        by (rule tick_nodynamic_off)
    qed
  }
  then show "\<forall>(ev, out) \<in> set (main_loop l2d fsub cfg inps m).
          NO_DYNAMIC \<notin> set ev \<and> (\<forall>m'. out = Running m' \<longrightarrow> nodynamic_count m' = nodynamic_count m)"
    by blast
qed

text \<open>
  An instance for each half: the other detector runs (and counts, and fires), the
  disabled one does nothing, and its counter keeps the arbitrary value 7.
\<close>

theorem zero_threshold_disables_witness:
  "silence_theshold (options 0 1 5 2 0 []) = 0
   \<and> main_loop (lin2db (- 1000)) exact_sub (options 0 1 5 2 0 []) [heard (- 50), heard (- 50), heard (- 50)]
        (initial\<lparr>silence_count := 7\<rparr>)
      = [([], Running (initial\<lparr>silence_count := 7, peakdb := - 50\<rparr>)),
         ([], Running (initial\<lparr>silence_count := 7, peakdb := - 50, last_peakdb := - 50,
                               nodynamic_count := 1\<rparr>)),
         ([NO_DYNAMIC], Running (initial\<lparr>silence_count := 7, peakdb := - 50,
                                         last_peakdb := - 50\<rparr>))]
   \<and> nodynamic_theshold (options (- 40) 5 0 2 0 []) = 0
   \<and> main_loop (lin2db (- 1000)) exact_sub (options (- 40) 5 0 2 0 []) [heard (- 50), heard (- 50)]
        (initial\<lparr>nodynamic_count := 7\<rparr>)
      = [([], Running (initial\<lparr>nodynamic_count := 7, peakdb := - 50, silence_count := 1\<rparr>)),
         ([], Running (initial\<lparr>nodynamic_count := 7, peakdb := - 50, last_peakdb := - 50,
                               silence_count := 2\<rparr>))]"
  using zero_threshold_disables [where cfg = "options 0 1 5 2 0 []" and l2d = "lin2db (- 1000)" and fsub = exact_sub
      and m = "initial\<lparr>silence_count := 7\<rparr>"
      and inps = "[heard (- 50), heard (- 50), heard (- 50)]"]
    zero_threshold_disables [where cfg = "options (- 40) 5 0 2 0 []" and l2d = "lin2db (- 1000)" and fsub = exact_sub
      and m = "initial\<lparr>nodynamic_count := 7\<rparr>" and inps = "[heard (- 50), heard (- 50)]"]
  by (simp add: round_defs example_defs lin2db_powr)

section \<open>Both detectors in one round\<close>

text \<open>
  Claim C6, as amended. In an evaluated round in which both enabled detectors reach
  their periods (the no-dynamic one with the distance of the two readings as the
  \<open>float\<close> subtraction computes it), and in which the command started by the SILENCE
  fire returns, both
  fires are emitted in that round, SILENCE first. If the second command returns too,
  the round ends with the grace counter equal to the grace period (assigned, not
  added) and with both counters at zero.
\<close>

theorem simultaneous_fire:
  assumes "in_grace m = 0" and "port_connected inp"
    and "current = l2d (callbacks (blocks inp) (peak m))"
    and "silence_theshold cfg \<noteq> 0"
    and "silence_period cfg \<le> (if current < silence_theshold cfg then silence_count m + 1 else 0)"
    and "nodynamic_theshold cfg \<noteq> 0"
    and "nodynamic_period cfg \<le>
           (if \<bar>fsub (peakdb m) current\<bar> < nodynamic_theshold cfg
            then nodynamic_count m + 1 else 0)"
    and "run_command (command cfg) (fork_ok inp SILENCE) = None"
  shows "fst (tick l2d fsub cfg inp m) = [SILENCE, NO_DYNAMIC]
       \<and> (run_command (command cfg) (fork_ok inp NO_DYNAMIC) = None \<longrightarrow>
            (\<exists>m'. snd (tick l2d fsub cfg inp m) = Running m' \<and> in_grace m' = grace_period cfg
                  \<and> silence_count m' = 0 \<and> nodynamic_count m' = 0))"
  using assms
  by (auto simp: tick_evaluated detector_defs
           split: if_splits option.splits prod.splits outcome.splits)

theorem simultaneous_fire_witness:
  "in_grace (initial\<lparr>peakdb := - 50, silence_count := 1\<rparr>) = 0
   \<and> port_connected (heard (- 50))
   \<and> lin2db (- 1000) (callbacks (blocks (heard (- 50))) 0) = - 50
   \<and> run_command [] True = None
   \<and> tick (lin2db (- 1000)) exact_sub (options (- 40) 2 5 1 3 []) (heard (- 50))
        (initial\<lparr>peakdb := - 50, silence_count := 1\<rparr>)
      = ([SILENCE, NO_DYNAMIC],
         Running (initial\<lparr>peakdb := - 50, last_peakdb := - 50, in_grace := 3\<rparr>))"
proof -
  have t: "tick (lin2db (- 1000)) exact_sub (options (- 40) 2 5 1 3 []) (heard (- 50))
        (initial\<lparr>peakdb := - 50, silence_count := 1\<rparr>)
      = ([SILENCE, NO_DYNAMIC],
         Running (initial\<lparr>peakdb := - 50, last_peakdb := - 50, in_grace := 3\<rparr>))"
    by (simp add: round_defs example_defs lin2db_powr)
  show ?thesis
    using t simultaneous_fire [where m = "initial\<lparr>peakdb := - 50, silence_count := 1\<rparr>"
        and inp = "heard (- 50)" and l2d = "lin2db (- 1000)" and fsub = exact_sub and current = "- 50"
        and cfg = "options (- 40) 2 5 1 3 []"]
    by (simp add: example_defs process_peak_def run_command_def lin2db_powr)
qed

text \<open>
  Without the restriction the claim fails: with the command \<open>exit\<close>, two quiet rounds
  bring both detectors to their periods in the second round, SILENCE is fired and the
  process ends before the no-dynamic detector runs.
\<close>

theorem simultaneous_fire_exit_counterexample:
  "main_loop (lin2db (- 1000)) exact_sub (options (- 40) 2 5 1 3 [''exit''])
      [heard (- 50), heard (- 50)] initial
     = [([], Running (initial\<lparr>peakdb := - 50, silence_count := 1\<rparr>)),
        ([SILENCE], Exited 0)]
   \<and> in_grace (initial\<lparr>peakdb := - 50, silence_count := 1\<rparr>) = 0
   \<and> port_connected (heard (- 50))
   \<and> lin2db (- 1000) (callbacks (blocks (heard (- 50))) 0) = - 50
   \<and> silence_theshold (options (- 40) 2 5 1 3 [''exit'']) \<noteq> 0
   \<and> silence_period (options (- 40) 2 5 1 3 [''exit''])
       \<le> (if (- 50 :: real) < silence_theshold (options (- 40) 2 5 1 3 [''exit''])
           then silence_count (initial\<lparr>peakdb := - 50, silence_count := 1\<rparr>) + 1 else 0)
   \<and> nodynamic_theshold (options (- 40) 2 5 1 3 [''exit'']) \<noteq> 0
   \<and> nodynamic_period (options (- 40) 2 5 1 3 [''exit''])
       \<le> (if \<bar>exact_sub (peakdb (initial\<lparr>peakdb := - 50, silence_count := 1\<rparr>)) (- 50)\<bar>
              < nodynamic_theshold (options (- 40) 2 5 1 3 [''exit''])
           then nodynamic_count (initial\<lparr>peakdb := - 50, silence_count := 1\<rparr>) + 1 else 0)
   \<and> tick (lin2db (- 1000)) exact_sub (options (- 40) 2 5 1 3 [''exit'']) (heard (- 50))
        (initial\<lparr>peakdb := - 50, silence_count := 1\<rparr>)
       = ([SILENCE], Exited 0)"
  by (simp add: round_defs example_defs lin2db_powr)

section \<open>A period of zero\<close>

text \<open>
  Claim C7, as amended. An enabled detector whose period is zero fires in every
  evaluated round, whether or not its condition holds in that round: a counter that was
  just reset to zero has already reached a period of zero. So it fires in the first
  round in which its condition holds, and also in every evaluated round before that one.
  (For the no-dynamic detector the round must get past the silence detector: a command
  started there has to return.)
\<close>

theorem zero_period_fires_every_tick:
  assumes "in_grace m = 0" and "port_connected inp"
  shows "(silence_theshold cfg \<noteq> 0 \<and> silence_period cfg = 0 \<and> 0 \<le> silence_count m \<longrightarrow>
            SILENCE \<in> set (fst (tick l2d fsub cfg inp m)))
       \<and> (nodynamic_theshold cfg \<noteq> 0 \<and> nodynamic_period cfg = 0 \<and> 0 \<le> nodynamic_count m
            \<and> (SILENCE \<in> set (fst (tick l2d fsub cfg inp m)) \<longrightarrow>
                  run_command (command cfg) (fork_ok inp SILENCE) = None) \<longrightarrow>
            NO_DYNAMIC \<in> set (fst (tick l2d fsub cfg inp m)))"
  using assms
  by (auto simp: tick_evaluated detector_defs
           split: if_splits option.splits prod.splits outcome.splits)

theorem zero_period_fires_every_tick_witness:
  "in_grace initial = 0 \<and> port_connected (heard (- 10))
   \<and> silence_theshold (options (- 40) 0 7 0 0 []) \<noteq> 0
   \<and> silence_period (options (- 40) 0 7 0 0 []) = 0 \<and> 0 \<le> silence_count initial
   \<and> nodynamic_theshold (options (- 40) 0 7 0 0 []) \<noteq> 0
   \<and> nodynamic_period (options (- 40) 0 7 0 0 []) = 0 \<and> 0 \<le> nodynamic_count initial
   \<and> run_command (command (options (- 40) 0 7 0 0 [])) (fork_ok (heard (- 10)) SILENCE) = None
   \<and> SILENCE \<in> set (fst (tick (lin2db (- 1000)) exact_sub (options (- 40) 0 7 0 0 []) (heard (- 10)) initial))
   \<and> NO_DYNAMIC \<in> set (fst (tick (lin2db (- 1000)) exact_sub (options (- 40) 0 7 0 0 []) (heard (- 10)) initial))"
  using zero_period_fires_every_tick [where m = initial and inp = "heard (- 10)"
      and cfg = "options (- 40) 0 7 0 0 []" and l2d = "lin2db (- 1000)" and fsub = exact_sub]
  by (simp add: example_defs run_command_def)

text \<open>
  The claim as it was stated says that the detector does not fire before its condition
  first holds. A round at -10 dB is not below the threshold of -40 dB, and SILENCE is
  fired all the same.
\<close>

theorem zero_period_counterexample:
  "in_grace initial = 0 \<and> port_connected (heard (- 10))
   \<and> silence_theshold (options (- 40) 0 0 10 0 []) \<noteq> 0
   \<and> silence_period (options (- 40) 0 0 10 0 []) = 0
   \<and> \<not> lin2db (- 1000) (callbacks (blocks (heard (- 10))) (peak initial)) < - 40
   \<and> fst (tick (lin2db (- 1000)) exact_sub (options (- 40) 0 0 10 0 []) (heard (- 10)) initial) = [SILENCE]"
  by (simp add: round_defs example_defs lin2db_powr)

section \<open>Skipped rounds\<close>

lemma main_loop_single: "main_loop l2d fsub cfg [inp] m = [tick l2d fsub cfg inp m]"
  by (simp split: prod.splits outcome.splits)

lemma grace_zero_id: "in_grace m = 0 \<Longrightarrow> m\<lparr>in_grace := 0\<rparr> = m"
  by (cases m) simp

lemma main_loop_nonempty: "inps \<noteq> [] \<Longrightarrow> main_loop l2d fsub cfg inps m \<noteq> []"
  by (cases inps) (auto split: prod.splits outcome.splits)

lemma disconnected_run:
  assumes "in_grace m = 0" and "\<forall>i \<in> set ds. \<not> port_connected i" and "rest \<noteq> []"
  shows "length (main_loop l2d fsub cfg (ds @ rest) m) =
           length ds + length (main_loop l2d fsub cfg rest
             (m\<lparr>peak := callbacks (concat (map blocks ds)) (peak m)\<rparr>))
         \<and> last (main_loop l2d fsub cfg (ds @ rest) m) =
             last (main_loop l2d fsub cfg rest
               (m\<lparr>peak := callbacks (concat (map blocks ds)) (peak m)\<rparr>))"
  using assms
proof (induction ds arbitrary: m)
  case Nil
  then show ?case by simp
next
  case (Cons d ds)
  let ?m1 = "m\<lparr>peak := callbacks (blocks d) (peak m)\<rparr>"
  have t: "tick l2d fsub cfg d m = ([], Running ?m1)"
    using Cons.prems by (simp add: tick_disconnected)
  have "in_grace ?m1 = 0" and "\<forall>i \<in> set ds. \<not> port_connected i"
    using Cons.prems by simp_all
  from Cons.IH [OF this Cons.prems(3)] t Cons.prems(3) show ?case
    by (simp add: callbacks_append main_loop_nonempty)
qed

lemma grace_run:
  assumes "0 \<le> in_grace m" and "length gs = nat (in_grace m)" and "rest \<noteq> []"
  shows "length (main_loop l2d fsub cfg (gs @ rest) m) =
           length gs + length (main_loop l2d fsub cfg rest
             (m\<lparr>peak := callbacks (concat (map blocks gs)) (peak m), in_grace := 0\<rparr>))
         \<and> last (main_loop l2d fsub cfg (gs @ rest) m) =
             last (main_loop l2d fsub cfg rest
               (m\<lparr>peak := callbacks (concat (map blocks gs)) (peak m), in_grace := 0\<rparr>))"
  using assms
proof (induction gs arbitrary: m)
  case Nil
  then show ?case by (simp add: grace_zero_id)
next
  case (Cons g gs)
  let ?m1 = "m\<lparr>peak := callbacks (blocks g) (peak m), in_grace := in_grace m - 1\<rparr>"
  have pos: "0 < in_grace m" using Cons.prems by simp
  then have t: "tick l2d fsub cfg g m = ([], Running ?m1)"
    by (simp add: tick_grace decrement_pos)
  have "0 \<le> in_grace ?m1" and "length gs = nat (in_grace ?m1)"
    using Cons.prems pos by simp_all
  from Cons.IH [OF this Cons.prems(3)] t Cons.prems(3) show ?case
    by (simp add: callbacks_append main_loop_nonempty)
qed

text \<open>
  Claim C10. A skipped round (a grace period runs, or the port is not connected) emits
  nothing and leaves both readings as they are; the peak cell is neither read nor reset,
  it only takes up what the callbacks of that round add. Hence for a run of skipped
  rounds (first the rounds that use up the grace period, then rounds without
  connection) followed by an evaluated round: the detectors of that round see, as
  previous reading, the reading from before the skipped rounds, and as current reading
  the decibel value of the largest absolute sample of all those rounds and the
  evaluated one together (and of what the cell held before them).
\<close>

theorem skipped_ticks_accumulate:
  "((in_grace m \<noteq> 0 \<or> \<not> port_connected inp) \<longrightarrow>
      fst (tick l2d fsub cfg inp m) = []
      \<and> (\<exists>m'. snd (tick l2d fsub cfg inp m) = Running m'
            \<and> peakdb m' = peakdb m \<and> last_peakdb m' = last_peakdb m
            \<and> peak m' = callbacks (blocks inp) (peak m)))
   \<and> (0 \<le> in_grace m \<and> length gs = nat (in_grace m) \<and> (\<forall>i \<in> set ds. \<not> port_connected i)
        \<and> port_connected inp \<longrightarrow>
        length (main_loop l2d fsub cfg (gs @ ds @ [inp]) m) = length gs + length ds + 1
        \<and> last (main_loop l2d fsub cfg (gs @ ds @ [inp]) m) =
            detect fsub cfg inp
              (m\<lparr>in_grace := 0, last_peakdb := peakdb m,
                  peakdb := l2d (Max (insert (peak m)
                              (abs ` set (concat (concat (map blocks (gs @ ds @ [inp]))))))),
                  peak := 0\<rparr>))"
proof (rule conjI; rule impI)
  assume "in_grace m \<noteq> 0 \<or> \<not> port_connected inp"
  then show "fst (tick l2d fsub cfg inp m) = []
      \<and> (\<exists>m'. snd (tick l2d fsub cfg inp m) = Running m'
            \<and> peakdb m' = peakdb m \<and> last_peakdb m' = last_peakdb m
            \<and> peak m' = callbacks (blocks inp) (peak m))"
    by (cases "in_grace m = 0") (simp_all add: tick_grace tick_disconnected)
next
  assume a: "0 \<le> in_grace m \<and> length gs = nat (in_grace m) \<and> (\<forall>i \<in> set ds. \<not> port_connected i)
        \<and> port_connected inp"
  define P where "P = Max (insert (peak m) (abs ` set (concat (concat (map blocks (gs @ ds @ [inp]))))))"
  let ?mg = "m\<lparr>peak := callbacks (concat (map blocks gs)) (peak m), in_grace := 0\<rparr>"
  let ?ms = "?mg\<lparr>peak := callbacks (concat (map blocks ds)) (peak ?mg)\<rparr>"
  have run: "length (main_loop l2d fsub cfg (gs @ ds @ [inp]) m) =
      length gs + length ds + length (main_loop l2d fsub cfg [inp] ?ms)
      \<and> last (main_loop l2d fsub cfg (gs @ ds @ [inp]) m) = last (main_loop l2d fsub cfg [inp] ?ms)"
    using a grace_run [where m = m and gs = gs and rest = "ds @ [inp]" and l2d = l2d and fsub = fsub and cfg = cfg]
      disconnected_run [where m = ?mg and ds = ds and rest = "[inp]" and l2d = l2d and fsub = fsub
        and cfg = cfg]
    by simp
  have "callbacks (concat (map blocks (gs @ ds @ [inp]))) (peak m) = P"
    unfolding P_def by (simp only: callbacks_Max)
  then have peak_all: "callbacks (blocks inp)
      (callbacks (concat (map blocks ds)) (callbacks (concat (map blocks gs)) (peak m))) = P"
    by (simp add: callbacks_append)
  have "tick l2d fsub cfg inp ?ms =
      detect fsub cfg inp (m\<lparr>in_grace := 0, last_peakdb := peakdb m, peakdb := l2d P, peak := 0\<rparr>)"
    using a by (simp add: tick_evaluated peak_all)
  with run have "length (main_loop l2d fsub cfg (gs @ ds @ [inp]) m) = length gs + length ds + 1
        \<and> last (main_loop l2d fsub cfg (gs @ ds @ [inp]) m) =
            detect fsub cfg inp (m\<lparr>in_grace := 0, last_peakdb := peakdb m, peakdb := l2d P, peak := 0\<rparr>)"
    by (simp add: main_loop_single del: main_loop.simps)
  then show "length (main_loop l2d fsub cfg (gs @ ds @ [inp]) m) = length gs + length ds + 1
        \<and> last (main_loop l2d fsub cfg (gs @ ds @ [inp]) m) =
            detect fsub cfg inp
              (m\<lparr>in_grace := 0, last_peakdb := peakdb m,
                  peakdb := l2d (Max (insert (peak m)
                              (abs ` set (concat (concat (map blocks (gs @ ds @ [inp]))))))),
                  peak := 0\<rparr>)"
    unfolding P_def .
qed

text \<open>
  An instance: a fire has just set two seconds of grace and the last reading was
  -50 dB. A loud buffer (-10 dB) arrives in the first grace round, a quiet one in the
  second, the port then has no connection for one round, and the evaluated round after
  that brings a buffer at -50 dB. Its current reading is -10 dB, its previous one -50 dB.
\<close>

theorem skipped_ticks_accumulate_witness:
  "in_grace (initial\<lparr>peakdb := - 50, in_grace := 2\<rparr>) \<noteq> 0
   \<and> tick (lin2db (- 1000)) exact_sub (options (- 40) 1 0 10 2 []) (heard (- 10))
        (initial\<lparr>peakdb := - 50, in_grace := 2\<rparr>)
      = ([], Running (initial\<lparr>peakdb := - 50, in_grace := 1, peak := 10 powr (- 10 / 20)\<rparr>))
   \<and> 0 \<le> in_grace (initial\<lparr>peakdb := - 50, in_grace := 2\<rparr>)
   \<and> length [heard (- 10), heard (- 60)] = nat (in_grace (initial\<lparr>peakdb := - 50, in_grace := 2\<rparr>))
   \<and> list_all (\<lambda>i. \<not> port_connected i) [unplugged]
   \<and> port_connected (heard (- 50))
   \<and> main_loop (lin2db (- 1000)) exact_sub (options (- 40) 1 0 10 2 [])
        ([heard (- 10), heard (- 60)] @ [unplugged] @ [heard (- 50)])
        (initial\<lparr>peakdb := - 50, in_grace := 2\<rparr>)
      = [([], Running (initial\<lparr>peakdb := - 50, in_grace := 1, peak := 10 powr (- 10 / 20)\<rparr>)),
         ([], Running (initial\<lparr>peakdb := - 50, in_grace := 0, peak := 10 powr (- 10 / 20)\<rparr>)),
         ([], Running (initial\<lparr>peakdb := - 50, in_grace := 0, peak := 10 powr (- 10 / 20)\<rparr>)),
         ([], Running (initial\<lparr>peakdb := - 10, last_peakdb := - 50\<rparr>))]"
  using skipped_ticks_accumulate [where m = "initial\<lparr>peakdb := - 50, in_grace := 2\<rparr>"
      and l2d = "lin2db (- 1000)" and fsub = exact_sub and cfg = "options (- 40) 1 0 10 2 []"
      and inp = "heard (- 10)"]
    skipped_ticks_accumulate [where m = "initial\<lparr>peakdb := - 50, in_grace := 2\<rparr>"
      and l2d = "lin2db (- 1000)" and fsub = exact_sub and cfg = "options (- 40) 1 0 10 2 []"
      and gs = "[heard (- 10), heard (- 60)]" and ds = "[unplugged]" and inp = "heard (- 50)"]
  by (simp add: round_defs example_defs lin2db_powr)

section \<open>A callback between the read and the reset\<close>

text \<open>
  With nothing in between, the two statements are \<open>read_peak\<close>.
\<close>

lemma schedule_read_peak:
  "schedule l2d [Read, Reset] (idle pk) =
     \<lparr>cell = snd (read_peak l2d pk), local_peakdb = None, returned = [fst (read_peak l2d pk)]\<rparr>"
  by (simp add: idle_def read_peak_def)

text \<open>
  Claim C9 asks that the read-and-reset be atomic with respect to the callback: no
  update is lost between the read and the reset. The source does not give that.
  Whatever a callback stores after line 53 has read the cell and before line 54 has
  written it is set to zero without ever being returned: the call returns the value
  read before the callback, and the cell is zero after it, for every buffer. In the
  schedule callback [0.5], read, callback [1], reset, read, reset the two calls return
  the decibel values of 0.5 and of 0, and the sample 1 is lost; with the second
  callback after the reset they return those of 0.5 and of 1.
\<close>

theorem read_peak_lost_update:
  "schedule l2d [Read, Callback buf, Reset] (idle pk) =
     \<lparr>cell = 0, local_peakdb = None, returned = [l2d pk]\<rparr>
   \<and> returned (schedule l2d [Callback [1 / 2], Read, Callback [1], Reset, Read, Reset] (idle 0))
       = [l2d (1 / 2), l2d 0]
   \<and> returned (schedule l2d [Callback [1 / 2], Read, Reset, Callback [1], Read, Reset] (idle 0))
       = [l2d (1 / 2), l2d 1]"
  by (simp add: idle_def process_peak_def)

end
